theory Spec2Isabelle
  imports Complex_Main
begin

section \<open>Template expressions of EDXNet (Core/TemplateExpression.h)\<close>

text \<open>
  The header builds lazy elementwise expressions out of five node types: \<open>TScalarExp\<close>,
  \<open>TConstantExp\<close>, \<open>TBinaryExp\<close>, \<open>TUnaryExp\<close> and any other type that offers
  \<open>Eval(i, broadcastIndex)\<close> and \<open>Shape()\<close> (the tensor class, which lives in another
  header). Every \<open>Eval\<close> returns a C++ \<open>float\<close>.

  The embedding keeps C++ \<open>float\<close> abstract: it is a type variable \<open>'f\<close>, and the
  operations the header applies to it come in a record. The built-in operators
  \<open>+ - * /\<close>, the comparison \<open>>\<close> and the literal \<open>0.0f\<close> belong to the language, the
  functions \<open>Math::Exp\<close>, \<open>Math::Sqrt\<close>, \<open>Math::Square\<close>, \<open>Math::Log\<close>, \<open>Math::Abs\<close> to a
  library that is not part of this header. Every theorem stated for an arbitrary record
  therefore holds for binary32 arithmetic as well as for any other reading of them.
\<close>

subsection \<open>Primitives taken as parameters\<close>

record 'f float_ops =
  fadd :: "'f \<Rightarrow> 'f \<Rightarrow> 'f"
  fsub :: "'f \<Rightarrow> 'f \<Rightarrow> 'f"
  fmul :: "'f \<Rightarrow> 'f \<Rightarrow> 'f"
  fdiv :: "'f \<Rightarrow> 'f \<Rightarrow> 'f"
  fgt :: "'f \<Rightarrow> 'f \<Rightarrow> bool"
  fzero :: "'f"
  Math_Exp :: "'f \<Rightarrow> 'f"
  Math_Sqrt :: "'f \<Rightarrow> 'f"
  Math_Square :: "'f \<Rightarrow> 'f"
  Math_Log :: "'f \<Rightarrow> 'f"
  Math_Abs :: "'f \<Rightarrow> 'f"

text \<open>
  \<open>BroadcastShape\<close> is called by \<open>TBinaryExp::Shape\<close> and defined elsewhere. It is a
  parameter of \<open>Shape\<close> below, of a type that lets it refuse two shapes.
\<close>

datatype error = ShapeIncompatible

type_synonym shape = "int list"

type_synonym broadcaster = "shape \<Rightarrow> shape \<Rightarrow> error + shape"

subsection \<open>Memory that nodes refer to\<close>

text \<open>
  \<open>TScalarExp<T>\<close> keeps \<open>const T& val\<close>: a reference to a variable of the caller. The
  constructor of \<open>TConstantExp\<close> receives its shape as \<open>const Array<int>&\<close>. Both are
  addresses into a store. A scalar cell holds a value of whatever type \<open>T\<close> the caller
  declared; \<open>'v\<close> stands for those values.
\<close>

type_synonym addr = nat

record 'v store =
  scalars :: "addr \<Rightarrow> 'v"
  arrays :: "addr \<Rightarrow> shape"

subsection \<open>Operation functors\<close>

definition AddOp_Exec :: "'f float_ops \<Rightarrow> 'f \<Rightarrow> 'f \<Rightarrow> 'f" where
  "AddOp_Exec F a b = fadd F a b"

definition MinusOp_Exec :: "'f float_ops \<Rightarrow> 'f \<Rightarrow> 'f \<Rightarrow> 'f" where
  "MinusOp_Exec F a b = fsub F a b"

definition MulOp_Exec :: "'f float_ops \<Rightarrow> 'f \<Rightarrow> 'f \<Rightarrow> 'f" where
  "MulOp_Exec F a b = fmul F a b"

definition DivOp_Exec :: "'f float_ops \<Rightarrow> 'f \<Rightarrow> 'f \<Rightarrow> 'f" where
  "DivOp_Exec F a b = fdiv F a b"

definition ExpOp_Exec :: "'f float_ops \<Rightarrow> 'f \<Rightarrow> 'f" where
  "ExpOp_Exec F val = Math_Exp F val"

definition SqrtOp_Exec :: "'f float_ops \<Rightarrow> 'f \<Rightarrow> 'f" where
  "SqrtOp_Exec F val = Math_Sqrt F val"

definition SquareOp_Exec :: "'f float_ops \<Rightarrow> 'f \<Rightarrow> 'f" where
  "SquareOp_Exec F val = Math_Square F val"

definition LogOp_Exec :: "'f float_ops \<Rightarrow> 'f \<Rightarrow> 'f" where
  "LogOp_Exec F val = Math_Log F val"

definition ReluOp_Exec :: "'f float_ops \<Rightarrow> 'f \<Rightarrow> 'f" where
  "ReluOp_Exec F val = (if fgt F val (fzero F) then val else fzero F)"

definition AbsOp_Exec :: "'f float_ops \<Rightarrow> 'f \<Rightarrow> 'f" where
  "AbsOp_Exec F val = Math_Abs F val"

text \<open>
  The template argument \<open>TOp\<close> of \<open>TBinaryExp\<close> and \<open>TUnaryExp\<close> selects one of these
  structs at compile time; \<open>TOp::Exec\<close> is the dispatch below.
\<close>

datatype BinaryOp = AddOp | MinusOp | MulOp | DivOp

datatype UnaryOp = ExpOp | SqrtOp | SquareOp | LogOp | ReluOp | AbsOp

fun BinaryOp_Exec :: "'f float_ops \<Rightarrow> BinaryOp \<Rightarrow> 'f \<Rightarrow> 'f \<Rightarrow> 'f" where
  "BinaryOp_Exec F AddOp a b = AddOp_Exec F a b"
| "BinaryOp_Exec F MinusOp a b = MinusOp_Exec F a b"
| "BinaryOp_Exec F MulOp a b = MulOp_Exec F a b"
| "BinaryOp_Exec F DivOp a b = DivOp_Exec F a b"

fun UnaryOp_Exec :: "'f float_ops \<Rightarrow> UnaryOp \<Rightarrow> 'f \<Rightarrow> 'f" where
  "UnaryOp_Exec F ExpOp val = ExpOp_Exec F val"
| "UnaryOp_Exec F SqrtOp val = SqrtOp_Exec F val"
| "UnaryOp_Exec F SquareOp val = SquareOp_Exec F val"
| "UnaryOp_Exec F LogOp val = LogOp_Exec F val"
| "UnaryOp_Exec F ReluOp val = ReluOp_Exec F val"
| "UnaryOp_Exec F AbsOp val = AbsOp_Exec F val"

subsection \<open>Expression nodes\<close>

text \<open>
  One constructor per node type of the header, with the fields the struct declares:
  \<^item> \<open>TScalarExp\<close>: the reference \<open>val\<close>, together with the conversion from the declared
    type \<open>T\<close> to \<open>float\<close> that \<open>return val;\<close> performs in a function returning \<open>float\<close>;
  \<^item> \<open>TConstantExp\<close>: the members \<open>val\<close> and \<open>shape\<close>, both held by value;
  \<^item> \<open>TBinaryExp\<close>: the functor and the operands \<open>lhs\<close>, \<open>rhs\<close>;
  \<^item> \<open>TUnaryExp\<close>: the functor and the operand \<open>param\<close>;
  \<^item> \<open>TExternalExp\<close>: a node type from outside the header, given by its two const
    methods, which may read the store and write nothing.
  \<open>TensorIndex\<close> is declared elsewhere and only handed down; it is the type variable
  \<open>'ix\<close>.
\<close>

datatype ('f, 'v, 'ix) TExp =
    TScalarExp "'v \<Rightarrow> 'f" addr
  | TConstantExp 'f shape
  | TBinaryExp BinaryOp "('f, 'v, 'ix) TExp" "('f, 'v, 'ix) TExp"
  | TUnaryExp UnaryOp "('f, 'v, 'ix) TExp"
  | TExternalExp "'v store \<Rightarrow> int \<Rightarrow> 'ix \<Rightarrow> 'f" "'v store \<Rightarrow> error + shape"

text \<open>\<open>TExp::Self\<close> is a static cast of \<open>this\<close> to the derived type.\<close>

definition Self :: "('f, 'v, 'ix) TExp \<Rightarrow> ('f, 'v, 'ix) TExp" where
  "Self e = e"

text \<open>
  \<open>Eval\<close> and \<open>Shape\<close> are written in state-passing form: each call receives the store
  and returns it with its result, so that a write by any node would show in the store
  returned. The arguments of \<open>TOp::Exec\<close> and of \<open>BroadcastShape\<close> are evaluated left to
  right here (C++ leaves the order open).
\<close>

fun Eval :: "'f float_ops \<Rightarrow> ('f, 'v, 'ix) TExp \<Rightarrow> int \<Rightarrow> 'ix \<Rightarrow> 'v store \<Rightarrow> 'f \<times> 'v store" where
  "Eval F (TScalarExp conv val) i broadcastIndex s = (conv (scalars s val), s)"
| "Eval F (TConstantExp val shape) i broadcastIndex s = (val, s)"
| "Eval F (TBinaryExp TOp lhs rhs) i broadcastIndex s =
     (case Eval F lhs i broadcastIndex s of (a, s1) \<Rightarrow>
      case Eval F rhs i broadcastIndex s1 of (b, s2) \<Rightarrow>
        (BinaryOp_Exec F TOp a b, s2))"
| "Eval F (TUnaryExp TOp param) i broadcastIndex s =
     (case Eval F param i broadcastIndex s of (a, s1) \<Rightarrow> (UnaryOp_Exec F TOp a, s1))"
| "Eval F (TExternalExp ev sh) i broadcastIndex s = (ev s i broadcastIndex, s)"

fun Shape :: "broadcaster \<Rightarrow> ('f, 'v, 'ix) TExp \<Rightarrow> 'v store \<Rightarrow> (error + shape) \<times> 'v store" where
  "Shape B (TScalarExp conv val) s = (Inr [1], s)"
| "Shape B (TConstantExp val shape) s = (Inr shape, s)"
| "Shape B (TBinaryExp TOp lhs rhs) s =
     (case Shape B lhs s of
        (Inl e, s1) \<Rightarrow> (Inl e, s1)
      | (Inr l, s1) \<Rightarrow>
          (case Shape B rhs s1 of
             (Inl e, s2) \<Rightarrow> (Inl e, s2)
           | (Inr r, s2) \<Rightarrow> (B l r, s2)))"
| "Shape B (TUnaryExp TOp param) s = Shape B param s"
| "Shape B (TExternalExp ev sh) s = (sh s, s)"

subsection \<open>Constructors and composition functions\<close>

definition Scalar :: "('v \<Rightarrow> 'f) \<Rightarrow> addr \<Rightarrow> ('f, 'v, 'ix) TExp" where
  "Scalar conv val = TScalarExp conv val"

text \<open>
  \<open>TConstantExp(const float _val, const Array<int>& _shape)\<close>: the value arrives by
  value, the shape by reference; the member initialiser \<open>shape(_shape)\<close> copies the
  array the reference points to at that moment.
\<close>

definition TConstantExp_new :: "'f \<Rightarrow> addr \<Rightarrow> 'v store \<Rightarrow> ('f, 'v, 'ix) TExp" where
  "TConstantExp_new val0 shape0 s = TConstantExp val0 (arrays s shape0)"

text \<open>
  \<open>TConstantExp(const float _val, TShape... shape)\<close> delegates to the constructor above
  with the array built from its arguments.
\<close>

definition TConstantExp_dims :: "'f \<Rightarrow> shape \<Rightarrow> ('f, 'v, 'ix) TExp" where
  "TConstantExp_dims val0 dims = TConstantExp val0 dims"

definition ElementWiseBinaryOpExpression ::
  "BinaryOp \<Rightarrow> ('f, 'v, 'ix) TExp \<Rightarrow> ('f, 'v, 'ix) TExp \<Rightarrow> ('f, 'v, 'ix) TExp" where
  "ElementWiseBinaryOpExpression TOp lhs rhs = TBinaryExp TOp (Self lhs) (Self rhs)"

definition operator_plus :: "('f, 'v, 'ix) TExp \<Rightarrow> ('f, 'v, 'ix) TExp \<Rightarrow> ('f, 'v, 'ix) TExp" where
  "operator_plus lhs rhs = ElementWiseBinaryOpExpression AddOp lhs rhs"

definition operator_minus :: "('f, 'v, 'ix) TExp \<Rightarrow> ('f, 'v, 'ix) TExp \<Rightarrow> ('f, 'v, 'ix) TExp" where
  "operator_minus lhs rhs = ElementWiseBinaryOpExpression MinusOp lhs rhs"

definition operator_times :: "('f, 'v, 'ix) TExp \<Rightarrow> ('f, 'v, 'ix) TExp \<Rightarrow> ('f, 'v, 'ix) TExp" where
  "operator_times lhs rhs = ElementWiseBinaryOpExpression MulOp lhs rhs"

definition operator_divide :: "('f, 'v, 'ix) TExp \<Rightarrow> ('f, 'v, 'ix) TExp \<Rightarrow> ('f, 'v, 'ix) TExp" where
  "operator_divide lhs rhs = ElementWiseBinaryOpExpression DivOp lhs rhs"

definition ElementWiseUnaryOpExpression ::
  "UnaryOp \<Rightarrow> ('f, 'v, 'ix) TExp \<Rightarrow> ('f, 'v, 'ix) TExp" where
  "ElementWiseUnaryOpExpression TOp param = TUnaryExp TOp (Self param)"

definition ExponentExp :: "('f, 'v, 'ix) TExp \<Rightarrow> ('f, 'v, 'ix) TExp" where
  "ExponentExp param = ElementWiseUnaryOpExpression ExpOp param"

definition SqrtExp :: "('f, 'v, 'ix) TExp \<Rightarrow> ('f, 'v, 'ix) TExp" where
  "SqrtExp param = ElementWiseUnaryOpExpression SqrtOp param"

definition SquareExp :: "('f, 'v, 'ix) TExp \<Rightarrow> ('f, 'v, 'ix) TExp" where
  "SquareExp param = ElementWiseUnaryOpExpression SquareOp param"

definition LogExp :: "('f, 'v, 'ix) TExp \<Rightarrow> ('f, 'v, 'ix) TExp" where
  "LogExp param = ElementWiseUnaryOpExpression LogOp param"

definition AbsExp :: "('f, 'v, 'ix) TExp \<Rightarrow> ('f, 'v, 'ix) TExp" where
  "AbsExp param = ElementWiseUnaryOpExpression AbsOp param"

definition ReluActivateExp :: "('f, 'v, 'ix) TExp \<Rightarrow> ('f, 'v, 'ix) TExp" where
  "ReluActivateExp param = ElementWiseUnaryOpExpression ReluOp param"

subsection \<open>The shape resolver and the array leaf\<close>

text \<open>
  Modelled from the spec: \<open>BroadcastShape\<close>, which this header calls and does not define.
  Section 4.5 of the specification: align the shapes from the trailing axis, pad the
  shorter one on the left with axes of size 1, and on each aligned axis pick the larger
  size when the two sizes match or either is 1; otherwise signal that the shapes are
  incompatible.
\<close>

definition pad_left :: "nat \<Rightarrow> shape \<Rightarrow> shape" where
  "pad_left n xs = replicate (n - length xs) 1 @ xs"

text \<open>
  Modelled from the spec: \<open>BroadcastShape\<close> on two padded shapes, axis by axis. The last
  equation is for shapes of different length, which padding excludes.
\<close>

fun broadcast_axes :: "shape \<Rightarrow> shape \<Rightarrow> error + shape" where
  "broadcast_axes [] [] = Inr []"
| "broadcast_axes (x # xs) (y # ys) =
     (if x = y \<or> x = 1 \<or> y = 1
      then (case broadcast_axes xs ys of Inl e \<Rightarrow> Inl e | Inr zs \<Rightarrow> Inr (max x y # zs))
      else Inl ShapeIncompatible)"
| "broadcast_axes xs ys = Inl ShapeIncompatible"

text \<open>
  Modelled from the spec: \<open>BroadcastShape\<close> itself, padding both shapes to the longer rank.
\<close>

definition BroadcastShape :: broadcaster where
  "BroadcastShape a b =
     (let n = max (length a) (length b) in broadcast_axes (pad_left n a) (pad_left n b))"

text \<open>
  Modelled from the spec: the array-backed leaf, which is defined with the tensor class
  and not in this header. Section 6 of the specification asks it for the same \<open>Eval\<close> and
  \<open>Shape\<close> and to map the output position to its own storage offset. This is the
  rank-one case read at its own shape, where the offset of output position \<open>i\<close> is
  \<open>i\<close>; it is evaluated at positions inside the array only.
\<close>

definition ArrayLeaf :: "'f list \<Rightarrow> ('f, 'v, 'ix) TExp" where
  "ArrayLeaf xs =
     TExternalExp (\<lambda>s i broadcastIndex. xs ! nat i) (\<lambda>s. Inr [int (length xs)])"

subsection \<open>A reading of the float primitives for concrete inputs\<close>

text \<open>
  Modelled from the spec: the float arithmetic and the Math library (\<open>exp\<close>, \<open>sqrt\<close>,
  \<open>square\<close>, \<open>log\<close>, \<open>abs\<close>, "pure scalar functions with standard IEEE floating-point
  domain behavior"). The values are the finite numbers, the two infinities and NaN.
  Finite results are exact: there is no rounding, no overflow and one zero, so this
  reading agrees with binary32 wherever operands and result are representable, which
  is the case wherever \<open>fval_ops\<close> is evaluated at a concrete input below. Rounding to
  single precision follows in its own subsection.
\<close>

datatype fval = Fin real | PInf | NInf | NaN

text \<open>
  Modelled from the spec: the operators \<open>+ - * /\<close> on these values ("exact IEEE floating
  semantics of the named arithmetic operator (division by zero yields IEEE infinity/NaN,
  not an error)"). \<open>fval_neg\<close> and \<open>fval_scale_inf\<close> carry the sign rules.
\<close>

fun fval_neg :: "fval \<Rightarrow> fval" where
  "fval_neg (Fin a) = Fin (- a)"
| "fval_neg PInf = NInf"
| "fval_neg NInf = PInf"
| "fval_neg NaN = NaN"

fun fval_add :: "fval \<Rightarrow> fval \<Rightarrow> fval" where
  "fval_add (Fin a) (Fin b) = Fin (a + b)"
| "fval_add NaN y = NaN"
| "fval_add x NaN = NaN"
| "fval_add PInf NInf = NaN"
| "fval_add NInf PInf = NaN"
| "fval_add PInf y = PInf"
| "fval_add NInf y = NInf"
| "fval_add x PInf = PInf"
| "fval_add x NInf = NInf"

definition fval_sub :: "fval \<Rightarrow> fval \<Rightarrow> fval" where
  "fval_sub x y = fval_add x (fval_neg y)"

fun fval_scale_inf :: "real \<Rightarrow> fval \<Rightarrow> fval" where
  "fval_scale_inf a w = (if a = 0 then NaN else if a > 0 then w else fval_neg w)"

fun fval_mul :: "fval \<Rightarrow> fval \<Rightarrow> fval" where
  "fval_mul (Fin a) (Fin b) = Fin (a * b)"
| "fval_mul NaN y = NaN"
| "fval_mul x NaN = NaN"
| "fval_mul (Fin a) y = fval_scale_inf a y"
| "fval_mul x (Fin b) = fval_scale_inf b x"
| "fval_mul PInf y = y"
| "fval_mul NInf y = fval_neg y"

fun fval_div :: "fval \<Rightarrow> fval \<Rightarrow> fval" where
  "fval_div (Fin a) (Fin b) =
     (if b = 0 then (if a = 0 then NaN else if a > 0 then PInf else NInf) else Fin (a / b))"
| "fval_div NaN y = NaN"
| "fval_div x NaN = NaN"
| "fval_div (Fin a) y = Fin 0"
| "fval_div x (Fin b) = (if b \<ge> 0 then x else fval_neg x)"
| "fval_div x y = NaN"

text \<open>
  Modelled from the spec: the comparison \<open>>\<close>, which is false whenever an operand is NaN.
\<close>

fun fval_gt :: "fval \<Rightarrow> fval \<Rightarrow> bool" where
  "fval_gt (Fin a) (Fin b) = (a > b)"
| "fval_gt NaN y = False"
| "fval_gt x NaN = False"
| "fval_gt NInf y = False"
| "fval_gt x PInf = False"
| "fval_gt x y = True"

text \<open>
  Modelled from the spec: \<open>Math::Exp\<close>, \<open>Math::Sqrt\<close>, \<open>Math::Log\<close> and \<open>Math::Abs\<close>, with NaN
  outside the domain of the root and of the logarithm; \<open>Math::Square\<close> is the product of
  its argument with itself (in \<open>fval_ops\<close>).
\<close>

fun fval_exp :: "fval \<Rightarrow> fval" where
  "fval_exp (Fin a) = Fin (exp a)"
| "fval_exp PInf = PInf"
| "fval_exp NInf = Fin 0"
| "fval_exp NaN = NaN"

fun fval_sqrt :: "fval \<Rightarrow> fval" where
  "fval_sqrt (Fin a) = (if a < 0 then NaN else Fin (sqrt a))"
| "fval_sqrt PInf = PInf"
| "fval_sqrt NInf = NaN"
| "fval_sqrt NaN = NaN"

fun fval_log :: "fval \<Rightarrow> fval" where
  "fval_log (Fin a) = (if a < 0 then NaN else if a = 0 then NInf else Fin (ln a))"
| "fval_log PInf = PInf"
| "fval_log NInf = NaN"
| "fval_log NaN = NaN"

fun fval_abs :: "fval \<Rightarrow> fval" where
  "fval_abs (Fin a) = Fin \<bar>a\<bar>"
| "fval_abs PInf = PInf"
| "fval_abs NInf = PInf"
| "fval_abs NaN = NaN"

text \<open>
  Modelled from the spec: the primitives of \<open>float_ops\<close>, read on \<open>fval\<close>.
\<close>

definition fval_ops :: "fval float_ops" where
  "fval_ops =
     \<lparr>fadd = fval_add, fsub = fval_sub, fmul = fval_mul, fdiv = fval_div,
      fgt = fval_gt, fzero = Fin 0,
      Math_Exp = fval_exp, Math_Sqrt = fval_sqrt, Math_Square = (\<lambda>x. fval_mul x x),
      Math_Log = fval_log, Math_Abs = fval_abs\<rparr>"

subsection \<open>Single precision\<close>

text \<open>
  Modelled from the spec: the float format. A C++ \<open>float\<close> is an IEEE 754 binary32 value
  here: NaN, an infinity, or a number \<open>m * 2^e\<close> with a significand of 24 bits
  (\<open>\<bar>m\<bar> < 2^24\<close>) and an exponent in the range of the format, subnormal numbers
  included (\<open>- 149 \<le> e \<le> 104\<close>).
\<close>

definition pow2 :: "int \<Rightarrow> real" where
  "pow2 e = 2 powi e"

definition is_binary32 :: "fval \<Rightarrow> bool" where
  "is_binary32 x =
     (case x of
        Fin r \<Rightarrow> (\<exists>m e. r = of_int m * pow2 e \<and> \<bar>m\<bar> < 2 ^ 24 \<and> - 149 \<le> e \<and> e \<le> 104)
      | _ \<Rightarrow> True)"

text \<open>
  Modelled from the spec: rounding to the format, to the nearest value with ties to the
  even significand, and to an infinity from \<open>2^128 - 2^103\<close> on. \<open>round_even\<close> rounds a
  real to an integer in that way.
\<close>

definition round_even :: "real \<Rightarrow> int" where
  "round_even y =
     (let f = \<lfloor>y\<rfloor>; d = y - of_int f
      in if d < 1 / 2 then f else if 1 / 2 < d then f + 1 else if even f then f else f + 1)"

fun to_binary32 :: "fval \<Rightarrow> fval" where
  "to_binary32 (Fin r) =
     (if r = 0 then Fin 0
      else
        let e = max (- 149) (\<lfloor>log 2 \<bar>r\<bar>\<rfloor> - 23);
            m = round_even (r / pow2 e)
        in if 2 ^ 128 \<le> \<bar>of_int m * pow2 e\<bar> then (if 0 < r then PInf else NInf)
           else Fin (of_int m * pow2 e))"
| "to_binary32 x = x"

text \<open>
  Modelled from the spec: the primitives of \<open>float_ops\<close> in single precision, each the
  rounded result of its reading in \<open>fval_ops\<close>.
\<close>

definition binary32_ops :: "fval float_ops" where
  "binary32_ops =
     \<lparr>fadd = (\<lambda>a b. to_binary32 (fval_add a b)), fsub = (\<lambda>a b. to_binary32 (fval_sub a b)),
      fmul = (\<lambda>a b. to_binary32 (fval_mul a b)), fdiv = (\<lambda>a b. to_binary32 (fval_div a b)),
      fgt = fval_gt, fzero = Fin 0,
      Math_Exp = (\<lambda>a. to_binary32 (fval_exp a)), Math_Sqrt = (\<lambda>a. to_binary32 (fval_sqrt a)),
      Math_Square = (\<lambda>a. to_binary32 (fval_mul a a)),
      Math_Log = (\<lambda>a. to_binary32 (fval_log a)), Math_Abs = (\<lambda>a. to_binary32 (fval_abs a))\<rparr>"

text \<open>
  The conversion that \<open>TScalarExp<int>::Eval\<close> performs in \<open>return val;\<close>: the integer,
  rounded to single precision.
\<close>

definition int_to_float :: "int \<Rightarrow> fval" where
  "int_to_float n = to_binary32 (Fin (of_int n))"

text \<open>
  What the types of the header say about values. \<open>returns_binary32\<close>: the primitives
  take floats to floats. \<open>leaves_binary32\<close>: at the position evaluated, every leaf of a
  tree delivers a float (the conversion in a scalar node returns one, the member \<open>val\<close>
  of a constant node is one, the \<open>Eval\<close> of an outside node returns one).
\<close>

definition returns_binary32 :: "fval float_ops \<Rightarrow> bool" where
  "returns_binary32 F \<longleftrightarrow>
     (\<forall>a b. is_binary32 a \<longrightarrow> is_binary32 b \<longrightarrow>
        is_binary32 (fadd F a b) \<and> is_binary32 (fsub F a b) \<and>
        is_binary32 (fmul F a b) \<and> is_binary32 (fdiv F a b))
     \<and> (\<forall>a. is_binary32 a \<longrightarrow>
        is_binary32 (Math_Exp F a) \<and> is_binary32 (Math_Sqrt F a) \<and>
        is_binary32 (Math_Square F a) \<and> is_binary32 (Math_Log F a) \<and>
        is_binary32 (Math_Abs F a))
     \<and> is_binary32 (fzero F)"

fun leaves_binary32 :: "(fval, 'v, 'ix) TExp \<Rightarrow> int \<Rightarrow> 'ix \<Rightarrow> 'v store \<Rightarrow> bool" where
  "leaves_binary32 (TScalarExp conv val) i broadcastIndex s = is_binary32 (conv (scalars s val))"
| "leaves_binary32 (TConstantExp val shape) i broadcastIndex s = is_binary32 val"
| "leaves_binary32 (TBinaryExp TOp lhs rhs) i broadcastIndex s =
     (leaves_binary32 lhs i broadcastIndex s \<and> leaves_binary32 rhs i broadcastIndex s)"
| "leaves_binary32 (TUnaryExp TOp param) i broadcastIndex s = leaves_binary32 param i broadcastIndex s"
| "leaves_binary32 (TExternalExp ev sh) i broadcastIndex s = is_binary32 (ev s i broadcastIndex)"

text \<open>The stores of the concrete examples, with cells declared \<open>int\<close>.\<close>

definition store0 :: "int store" where
  "store0 = \<lparr>scalars = (\<lambda>a. 0)(0 := 7, 1 := 2), arrays = (\<lambda>a. [])(0 := [2, 3])\<rparr>"

definition store1 :: "int store" where
  "store1 = \<lparr>scalars = (\<lambda>a. 0)(0 := 16777217, 1 := 16777216), arrays = (\<lambda>a. [])\<rparr>"

section \<open>Properties\<close>

subsection \<open>Evaluation writes nothing\<close>

lemma Eval_store: "snd (Eval F e i broadcastIndex s) = s"
proof (induction e arbitrary: s)
  case (TBinaryExp TOp lhs rhs)
  obtain a s1 where l: "Eval F lhs i broadcastIndex s = (a, s1)" by fastforce
  obtain b s2 where r: "Eval F rhs i broadcastIndex s1 = (b, s2)" by fastforce
  from l TBinaryExp.IH(1)[of s] have "s1 = s" by simp
  moreover from r TBinaryExp.IH(2)[of s1] have "s2 = s1" by simp
  ultimately show ?case using l r by simp
next
  case (TUnaryExp TOp param)
  obtain a s1 where p: "Eval F param i broadcastIndex s = (a, s1)" by fastforce
  from p TUnaryExp.IH[of s] have "s1 = s" by simp
  then show ?case using p by simp
qed simp_all

lemma Shape_store: "snd (Shape B e s) = s"
proof (induction e arbitrary: s)
  case (TBinaryExp TOp lhs rhs)
  obtain l s1 where l: "Shape B lhs s = (l, s1)" by fastforce
  obtain r s2 where r: "Shape B rhs s1 = (r, s2)" by fastforce
  from l TBinaryExp.IH(1)[of s] have "s1 = s" by simp
  moreover from r TBinaryExp.IH(2)[of s1] have "s2 = s1" by simp
  ultimately show ?case using l r by (simp split: sum.splits)
qed simp_all

lemma Eval_pair: "Eval F e i broadcastIndex s = (fst (Eval F e i broadcastIndex s), s)"
  using Eval_store [of F e i broadcastIndex s] by (simp add: prod_eq_iff)

lemma Shape_pair: "Shape B e s = (fst (Shape B e s), s)"
  using Shape_store [of B e s] by (simp add: prod_eq_iff)

subsection \<open>Composite nodes, by their operands\<close>

lemma Eval_TBinaryExp:
  "fst (Eval F (TBinaryExp TOp lhs rhs) i broadcastIndex s) =
     BinaryOp_Exec F TOp (fst (Eval F lhs i broadcastIndex s)) (fst (Eval F rhs i broadcastIndex s))"
proof -
  obtain a where l: "Eval F lhs i broadcastIndex s = (a, s)"
    by (rule that [OF Eval_pair])
  obtain b where r: "Eval F rhs i broadcastIndex s = (b, s)"
    by (rule that [OF Eval_pair])
  show ?thesis by (simp add: l r)
qed

lemma Eval_TUnaryExp:
  "fst (Eval F (TUnaryExp TOp param) i broadcastIndex s) =
     UnaryOp_Exec F TOp (fst (Eval F param i broadcastIndex s))"
  by (simp split: prod.split)

lemma Shape_TBinaryExp:
  assumes "fst (Shape B lhs s) = Inr l" and "fst (Shape B rhs s) = Inr r"
  shows "Shape B (TBinaryExp TOp lhs rhs) s = (B l r, s)"
proof -
  have "Shape B lhs s = (Inr l, s)" using Shape_pair [of B lhs s] assms(1) by simp
  moreover have "Shape B rhs s = (Inr r, s)" using Shape_pair [of B rhs s] assms(2) by simp
  ultimately show ?thesis by simp
qed

lemma BroadcastShape_23_3: "BroadcastShape [2, 3] [3] = Inr [2, 3]"
  by (simp add: BroadcastShape_def pad_left_def)

lemma BroadcastShape_41_3: "BroadcastShape [4, 1] [3] = Inr [4, 3]"
  by (simp add: BroadcastShape_def pad_left_def)

subsection \<open>Rounding to single precision\<close>

lemma pow2_powr: "pow2 e = 2 powr of_int e"
  by (simp add: pow2_def powr_real_of_int')

lemma pow2_pos: "0 < pow2 e"
  by (simp add: pow2_powr)

lemma pow2_add: "pow2 (a + b) = pow2 a * pow2 b"
  by (simp add: pow2_powr powr_add)

lemma pow2_le: "pow2 a \<le> pow2 b \<longleftrightarrow> a \<le> b"
  by (simp add: pow2_powr)

lemma pow2_less: "pow2 a < pow2 b \<longleftrightarrow> a < b"
  by (simp add: pow2_powr)

lemma pow2_nat: "pow2 (int n) = 2 ^ n"
  by (simp add: pow2_def)

lemma pow2_bounds:
  assumes "0 < x"
  shows "pow2 \<lfloor>log 2 x\<rfloor> \<le> x" and "x < pow2 (\<lfloor>log 2 x\<rfloor> + 1)"
proof -
  have "2 powr of_int \<lfloor>log 2 x\<rfloor> \<le> x \<and> x < 2 powr (of_int \<lfloor>log 2 x\<rfloor> + 1)"
    using floor_log_eq_powr_iff [of x 2 "\<lfloor>log 2 x\<rfloor>"] assms by simp
  then show "pow2 \<lfloor>log 2 x\<rfloor> \<le> x" and "x < pow2 (\<lfloor>log 2 x\<rfloor> + 1)"
    by (simp_all add: pow2_powr)
qed

lemma round_even_bounds: "\<lfloor>y\<rfloor> \<le> round_even y \<and> round_even y \<le> \<lfloor>y\<rfloor> + 1"
  by (simp add: round_even_def Let_def)

lemma round_even_of_int: "round_even (of_int n) = n"
  by (simp add: round_even_def Let_def)

lemma round_even_abs_le:
  assumes "\<bar>y\<bar> < of_int N"
  shows "\<bar>round_even y\<bar> \<le> N"
proof -
  have "\<lfloor>y\<rfloor> < N" using assms by (simp add: floor_less_iff abs_less_iff)
  moreover have "- N \<le> \<lfloor>y\<rfloor>" using assms by (simp add: le_floor_iff abs_less_iff)
  ultimately show ?thesis using round_even_bounds [of y] by linarith
qed

lemma round_even_abs_ge:
  assumes "of_int M \<le> \<bar>y\<bar>"
  shows "M \<le> \<bar>round_even y\<bar>"
proof (cases "0 \<le> y")
  case True
  then have "M \<le> \<lfloor>y\<rfloor>" using assms by (simp add: le_floor_iff)
  then show ?thesis using round_even_bounds [of y] by linarith
next
  case False
  then have le: "y \<le> of_int (- M)" using assms by simp
  show ?thesis
  proof (cases "y = of_int (- M)")
    case True
    then have "round_even y = - M" using round_even_of_int [of "- M"] by simp
    then show ?thesis by simp
  next
    case False
    with le have "y < of_int (- M)" by simp
    then have "\<lfloor>y\<rfloor> < - M" by (simp add: floor_less_iff)
    then show ?thesis using round_even_bounds [of y] by linarith
  qed
qed

lemma pow2_24: "pow2 24 = 2 ^ 24" and pow2_23: "pow2 23 = 2 ^ 23" and pow2_128: "pow2 128 = 2 ^ 128"
  and pow2_1: "pow2 1 = 2" and pow2_0: "pow2 0 = 1"
  by (simp_all add: pow2_def)

lemma pow2_diff: "pow2 a / pow2 b = pow2 (a - b)"
proof -
  have "pow2 a = pow2 (a - b) * pow2 b" using pow2_add [of "a - b" b] by simp
  then show ?thesis using pow2_pos [of b] by simp
qed

lemma is_binary32_special: "is_binary32 PInf" "is_binary32 NInf" "is_binary32 NaN"
  by (simp_all add: is_binary32_def)

lemma is_binary32_FinI:
  assumes "r = of_int m * pow2 e" and "\<bar>m\<bar> < 2 ^ 24" and "- 149 \<le> e" and "e \<le> 104"
  shows "is_binary32 (Fin r)"
  unfolding is_binary32_def using assms by auto

lemma is_binary32_Fin_0: "is_binary32 (Fin 0)"
  by (rule is_binary32_FinI [of _ 0 0]) simp_all

lemma pow2_abs: "\<bar>pow2 e\<bar> = pow2 e"
  using pow2_pos [of e] by simp

lemma to_binary32_is_binary32: "is_binary32 (to_binary32 x)"
proof (cases x)
  case (Fin r)
  show ?thesis
  proof (cases "r = 0")
    case True
    then show ?thesis using Fin by (simp add: is_binary32_Fin_0)
  next
    case False
    define L where "L = \<lfloor>log 2 \<bar>r\<bar>\<rfloor>"
    define e where "e = max (- 149) (L - 23)"
    define m where "m = round_even (r / pow2 e)"
    have pos: "0 < \<bar>r\<bar>" using False by simp
    have lo: "pow2 L \<le> \<bar>r\<bar>" and hi: "\<bar>r\<bar> < pow2 (L + 1)"
      using pow2_bounds [OF pos] by (simp_all add: L_def)
    have e_lo: "- 149 \<le> e" and e_L: "L - 23 \<le> e" by (simp_all add: e_def)
    have "\<bar>r\<bar> / pow2 e < pow2 (L + 1) / pow2 e"
      using hi pow2_pos [of e] by (simp add: divide_strict_right_mono)
    also have "\<dots> = pow2 (L + 1 - e)" by (rule pow2_diff)
    also have "\<dots> \<le> pow2 24" using e_L by (simp add: pow2_le)
    finally have q_lt: "\<bar>r / pow2 e\<bar> < of_int (2 ^ 24)" by (simp add: pow2_abs pow2_24)
    have m_le: "\<bar>m\<bar> \<le> 2 ^ 24" unfolding m_def by (rule round_even_abs_le [OF q_lt])
    have res: "to_binary32 x =
        (if 2 ^ 128 \<le> \<bar>of_int m * pow2 e\<bar> then (if 0 < r then PInf else NInf)
         else Fin (of_int m * pow2 e))"
      using Fin False by (simp add: Let_def m_def e_def L_def)
    show ?thesis
    proof (cases "2 ^ 128 \<le> \<bar>of_int m * pow2 e\<bar>")
      case True
      then show ?thesis using res by (simp add: is_binary32_special)
    next
      case nov: False
      then have small: "of_int \<bar>m\<bar> * pow2 e < pow2 128"
        using pow2_pos [of e] by (simp add: abs_mult pow2_128)
      have val: "to_binary32 x = Fin (of_int m * pow2 e)" using res nov by simp
      show ?thesis
      proof (cases "\<bar>m\<bar> = 2 ^ 24")
        case True
        then have "pow2 (24 + e) < pow2 128"
          using small by (simp add: pow2_add pow2_24)
        then have e_hi: "e + 1 \<le> 104" by (simp add: pow2_less)
        have m_cases: "m = 16777216 \<or> m = - 16777216" using True by simp arith
        have even_m: "m = 2 * (m div 2)" using m_cases by auto
        have abs_half: "\<bar>m div 2\<bar> < 2 ^ 24" using m_cases by auto
        have "of_int m * pow2 e = of_int (m div 2) * pow2 (e + 1)"
        proof -
          have "of_int m * pow2 e = of_int (2 * (m div 2)) * pow2 e" using even_m by simp
          also have "\<dots> = of_int (m div 2) * pow2 (e + 1)" by (simp add: pow2_add pow2_1)
          finally show ?thesis .
        qed
        then show ?thesis
          unfolding val using abs_half e_lo e_hi by (intro is_binary32_FinI [of _ "m div 2" "e + 1"]) auto
      next
        case False
        then have m_lt: "\<bar>m\<bar> < 2 ^ 24" using m_le by simp
        have e_hi: "e \<le> 104"
        proof (cases "e = - 149")
          case True
          then show ?thesis by simp
        next
          case False
          then have eL: "e = L - 23" by (auto simp: e_def)
          have "pow2 23 = pow2 L / pow2 e" by (simp add: pow2_diff eL)
          also have "\<dots> \<le> \<bar>r\<bar> / pow2 e"
            using lo pow2_pos [of e] by (simp add: divide_right_mono)
          finally have "of_int (2 ^ 23) \<le> \<bar>r / pow2 e\<bar>" by (simp add: pow2_abs pow2_23)
          then have "2 ^ 23 \<le> \<bar>m\<bar>" unfolding m_def by (rule round_even_abs_ge)
          then have "(2 ^ 23 :: real) \<le> of_int \<bar>m\<bar>"
            by (metis of_int_le_iff of_int_numeral of_int_power)
          then have "pow2 23 * pow2 e \<le> of_int \<bar>m\<bar> * pow2 e"
            using pow2_pos [of e] by (simp add: pow2_23)
          then have "pow2 (23 + e) < pow2 128" using small by (simp add: pow2_add)
          then show ?thesis by (simp add: pow2_less)
        qed
        show ?thesis
          unfolding val using m_lt e_lo e_hi by (intro is_binary32_FinI [of _ m e]) auto
      qed
    qed
  qed
qed (simp_all add: is_binary32_def)

lemma to_binary32_fixed:
  assumes "is_binary32 x"
  shows "to_binary32 x = x"
proof (cases x)
  case (Fin r)
  show ?thesis
  proof (cases "r = 0")
    case True
    then show ?thesis using Fin by simp
  next
    case False
    from assms Fin obtain m e0 where r: "r = of_int m * pow2 e0" and m: "\<bar>m\<bar> < 2 ^ 24"
      and e0_lo: "- 149 \<le> e0" and e0_hi: "e0 \<le> 104"
      by (auto simp: is_binary32_def)
    define L where "L = \<lfloor>log 2 \<bar>r\<bar>\<rfloor>"
    define e where "e = max (- 149) (L - 23)"
    have pos: "0 < \<bar>r\<bar>" using False by simp
    have lo: "pow2 L \<le> \<bar>r\<bar>" using pow2_bounds(1) [OF pos] by (simp add: L_def)
    have "(of_int \<bar>m\<bar> :: real) < 2 ^ 24" using m
      by (metis of_int_less_iff of_int_numeral of_int_power)
    then have "of_int \<bar>m\<bar> * pow2 e0 < pow2 24 * pow2 e0"
      using pow2_pos [of e0] by (simp add: pow2_24)
    then have r_lt: "\<bar>r\<bar> < pow2 (24 + e0)"
      by (simp add: r abs_mult pow2_abs pow2_add)
    with lo have "pow2 L < pow2 (24 + e0)" by simp
    then have "L - 23 \<le> e0" by (simp add: pow2_less)
    with e0_lo have e_le: "e \<le> e0" by (simp add: e_def)
    define k where "k = nat (e0 - e)"
    have e0_eq: "e0 = int k + e" using e_le by (simp add: k_def)
    have shift: "pow2 e0 = 2 ^ k * pow2 e" by (simp add: e0_eq pow2_add pow2_nat)
    have "r / pow2 e = of_int (m * 2 ^ k)"
      using pow2_pos [of e] by (simp add: r shift)
    then have rnd: "round_even (r / pow2 e) = m * 2 ^ k"
      by (simp only: round_even_of_int)
    have recon: "of_int (m * 2 ^ k) * pow2 e = r" by (simp add: r shift)
    have "\<bar>r\<bar> < pow2 128"
    proof -
      have "pow2 (24 + e0) \<le> pow2 128" using e0_hi by (simp add: pow2_le)
      with r_lt show ?thesis by simp
    qed
    then have nov: "\<not> 2 ^ 128 \<le> \<bar>r\<bar>" by (simp add: pow2_128)
    show ?thesis
      using Fin False nov by (simp add: Let_def L_def [symmetric] e_def [symmetric] rnd recon del: of_int_mult of_int_power)
  qed
qed simp_all

lemma is_binary32_of_int:
  assumes "\<bar>n\<bar> \<le> 2 ^ 24"
  shows "is_binary32 (Fin (of_int n))"
proof (cases "\<bar>n\<bar> = 2 ^ 24")
  case True
  then have "n = 16777216 \<or> n = - 16777216" by simp arith
  then show ?thesis
    by (intro is_binary32_FinI [of _ "n div 2" 1]) (auto simp: pow2_1)
next
  case False
  with assms show ?thesis
    by (intro is_binary32_FinI [of _ n 0]) (auto simp: pow2_0)
qed

lemma floor_log2_16777217: "\<lfloor>log 2 16777217\<rfloor> = 24"
  by (simp add: floor_log_eq_powr_iff)

lemma to_binary32_16777217: "to_binary32 (Fin 16777217) = Fin 16777216"
  by (simp add: floor_log2_16777217 pow2_1 round_even_def Let_def)

lemma int_to_float_small: "\<bar>n\<bar> \<le> 2 ^ 24 \<Longrightarrow> int_to_float n = Fin (of_int n)"
  unfolding int_to_float_def by (rule to_binary32_fixed, rule is_binary32_of_int)

lemma int_to_float_16777217: "int_to_float 16777217 = Fin 16777216"
  using to_binary32_16777217 by (simp add: int_to_float_def)

lemma is_binary32_int_to_float: "is_binary32 (int_to_float n)"
  unfolding int_to_float_def by (rule to_binary32_is_binary32)

lemma returns_binary32_binary32_ops: "returns_binary32 binary32_ops"
  by (simp add: returns_binary32_def binary32_ops_def to_binary32_is_binary32 is_binary32_Fin_0)

lemma BinaryOp_Exec_binary32:
  assumes "returns_binary32 F" and "is_binary32 a" and "is_binary32 b"
  shows "is_binary32 (BinaryOp_Exec F TOp a b)"
  using assms
  by (cases TOp)
     (simp_all add: returns_binary32_def AddOp_Exec_def MinusOp_Exec_def MulOp_Exec_def DivOp_Exec_def)

lemma UnaryOp_Exec_binary32:
  assumes "returns_binary32 F" and "is_binary32 a"
  shows "is_binary32 (UnaryOp_Exec F TOp a)"
  using assms
  by (cases TOp)
     (simp_all add: returns_binary32_def ExpOp_Exec_def SqrtOp_Exec_def SquareOp_Exec_def
        LogOp_Exec_def ReluOp_Exec_def AbsOp_Exec_def)

lemma Eval_binary32:
  assumes "returns_binary32 F"
  shows "leaves_binary32 e i broadcastIndex s \<Longrightarrow> is_binary32 (fst (Eval F e i broadcastIndex s))"
proof (induction e)
  case (TBinaryExp TOp lhs rhs)
  then show ?case
    by (simp only: Eval_TBinaryExp leaves_binary32.simps BinaryOp_Exec_binary32 [OF assms])
next
  case (TUnaryExp TOp param)
  then show ?case
    by (simp only: Eval_TUnaryExp leaves_binary32.simps UnaryOp_Exec_binary32 [OF assms])
qed simp_all

subsection \<open>The claims\<close>

text \<open>
  Claim C1. A binary node evaluates, at flat index \<open>i\<close> and coordinate
  \<open>broadcastIndex\<close>, to its functor applied to what its left and its right operand
  evaluate to at the same \<open>i\<close> and the same \<open>broadcastIndex\<close>. For the four operators
  this reads: \<open>(A + B).Eval(i)\<close> is \<open>A.Eval(i) + B.Eval(i)\<close> in float arithmetic, and
  likewise for \<open>-\<close>, \<open>*\<close> and \<open>/\<close>. No condition on the shapes is needed: \<open>Eval\<close> never
  looks at them.
\<close>

theorem TBinaryExp_Eval_elementwise:
  "fst (Eval F (TBinaryExp TOp lhs rhs) i broadcastIndex s) =
     BinaryOp_Exec F TOp (fst (Eval F lhs i broadcastIndex s)) (fst (Eval F rhs i broadcastIndex s))
   \<and> fst (Eval F (operator_plus lhs rhs) i broadcastIndex s) =
     fadd F (fst (Eval F lhs i broadcastIndex s)) (fst (Eval F rhs i broadcastIndex s))
   \<and> fst (Eval F (operator_minus lhs rhs) i broadcastIndex s) =
     fsub F (fst (Eval F lhs i broadcastIndex s)) (fst (Eval F rhs i broadcastIndex s))
   \<and> fst (Eval F (operator_times lhs rhs) i broadcastIndex s) =
     fmul F (fst (Eval F lhs i broadcastIndex s)) (fst (Eval F rhs i broadcastIndex s))
   \<and> fst (Eval F (operator_divide lhs rhs) i broadcastIndex s) =
     fdiv F (fst (Eval F lhs i broadcastIndex s)) (fst (Eval F rhs i broadcastIndex s))"
  unfolding operator_plus_def operator_minus_def operator_times_def operator_divide_def
    ElementWiseBinaryOpExpression_def Self_def
  by (simp only: Eval_TBinaryExp BinaryOp_Exec.simps AddOp_Exec_def MinusOp_Exec_def
      MulOp_Exec_def DivOp_Exec_def simp_thms)

text \<open>
  At a concrete input: with the arrays \<open>A = [1, 2, 3]\<close>, \<open>B = [10, 10, 10]\<close> and a scalar
  cell holding 2, the expression \<open>(A + B) * C\<close> evaluates to 22, 24, 26 at the flat indices
  0, 1, 2.
\<close>

theorem TBinaryExp_Eval_elementwise_witness:
  "map (\<lambda>i. fst (Eval fval_ops
          (operator_times
             (operator_plus (ArrayLeaf [Fin 1, Fin 2, Fin 3]) (ArrayLeaf [Fin 10, Fin 10, Fin 10]))
             (Scalar int_to_float 1) :: (fval, int, unit) TExp)
          i () store0))
     [0, 1, 2] = [Fin 22, Fin 24, Fin 26]"
  using
    TBinaryExp_Eval_elementwise [of fval_ops MulOp
      "operator_plus (ArrayLeaf [Fin 1, Fin 2, Fin 3]) (ArrayLeaf [Fin 10, Fin 10, Fin 10])"
      "Scalar int_to_float 1" _ "()" store0]
    TBinaryExp_Eval_elementwise [of fval_ops AddOp
      "ArrayLeaf [Fin 1, Fin 2, Fin 3]" "ArrayLeaf [Fin 10, Fin 10, Fin 10]" _ "()" store0]
  by (simp add: ArrayLeaf_def Scalar_def fval_ops_def int_to_float_small store0_def)

text \<open>
  Claim C2. When both operands have a shape, the shape of their binary composition is
  \<open>BroadcastShape\<close> applied to the two, whatever the functor. The node keeps no shape of
  its own: the composition is built without the store, and \<open>Shape\<close> works the result
  out from the operands in the store of the call, every time it is called.
\<close>

theorem TBinaryExp_Shape_broadcast:
  assumes "fst (Shape B lhs s) = Inr l" and "fst (Shape B rhs s) = Inr r"
  shows "Shape B (ElementWiseBinaryOpExpression TOp lhs rhs) s = (B l r, s)"
  unfolding ElementWiseBinaryOpExpression_def Self_def
  using assms by (rule Shape_TBinaryExp)

text \<open>
  At a concrete input: the left operand is an outside node whose shape is the array at
  address 0, the right one an array of three elements. The same composition has shape
  \<open>[2, 3]\<close> while address 0 holds \<open>[2, 3]\<close> and shape \<open>[4, 3]\<close> once it holds \<open>[4, 1]\<close>.
\<close>

theorem TBinaryExp_Shape_broadcast_witness:
  "fst (Shape BroadcastShape
      (TExternalExp (\<lambda>s i broadcastIndex. Fin 0) (\<lambda>s. Inr (arrays s 0)) :: (fval, int, unit) TExp)
      store0) = Inr [2, 3]
   \<and> fst (Shape BroadcastShape (ArrayLeaf [Fin 1, Fin 2, Fin 3] :: (fval, int, unit) TExp) store0)
       = Inr [3]
   \<and> Shape BroadcastShape
        (ElementWiseBinaryOpExpression MulOp
           (TExternalExp (\<lambda>s i broadcastIndex. Fin 0) (\<lambda>s. Inr (arrays s 0)))
           (ArrayLeaf [Fin 1, Fin 2, Fin 3]) :: (fval, int, unit) TExp)
        store0
       = (Inr [2, 3], store0)
   \<and> fst (Shape BroadcastShape
        (ElementWiseBinaryOpExpression MulOp
           (TExternalExp (\<lambda>s i broadcastIndex. Fin 0) (\<lambda>s. Inr (arrays s 0)))
           (ArrayLeaf [Fin 1, Fin 2, Fin 3]) :: (fval, int, unit) TExp)
        (store0\<lparr>arrays := (arrays store0)(0 := [4, 1])\<rparr>))
       = Inr [4, 3]"
proof -
  let ?l = "TExternalExp (\<lambda>s i broadcastIndex. Fin 0) (\<lambda>s. Inr (arrays s 0)) :: (fval, int, unit) TExp"
  let ?r = "ArrayLeaf [Fin 1, Fin 2, Fin 3] :: (fval, int, unit) TExp"
  let ?s1 = "store0\<lparr>arrays := (arrays store0)(0 := [4, 1])\<rparr>"
  have l0: "fst (Shape BroadcastShape ?l store0) = Inr [2, 3]"
    by (simp add: store0_def)
  have r0: "fst (Shape BroadcastShape ?r store0) = Inr [3]"
    by (simp add: ArrayLeaf_def)
  have l1: "fst (Shape BroadcastShape ?l ?s1) = Inr [4, 1]"
    by simp
  have r1: "fst (Shape BroadcastShape ?r ?s1) = Inr [3]"
    by (simp add: ArrayLeaf_def)
  show ?thesis
    using l0 r0 TBinaryExp_Shape_broadcast [OF l0 r0, of MulOp]
      TBinaryExp_Shape_broadcast [OF l1 r1, of MulOp]
    by (simp add: BroadcastShape_23_3 BroadcastShape_41_3)
qed

text \<open>
  Claim C3. The two leaf nodes of the header have no failing branch and do not read
  their index arguments. \<open>TScalarExp::Eval\<close> returns the scalar it refers to (as a
  float) at every flat index and coordinate, and its \<open>Shape\<close> is \<open>[1]\<close>.
  \<open>TConstantExp::Eval\<close> returns the stored value at every flat index and coordinate,
  and its \<open>Shape\<close> is the shape given to the constructor, unchanged.
\<close>

theorem leaf_nodes_ignore_position:
  "Eval F (Scalar conv val) i broadcastIndex s = (conv (scalars s val), s)
   \<and> Eval F (Scalar conv val) i broadcastIndex s = Eval F (Scalar conv val) i' broadcastIndex' s
   \<and> Shape B (Scalar conv val :: ('f, 'v, 'ix) TExp) s = (Inr [1], s)
   \<and> Eval F (TConstantExp_new val0 shape0 s0) i broadcastIndex s = (val0, s)
   \<and> Eval F (TConstantExp_new val0 shape0 s0) i broadcastIndex s =
       Eval F (TConstantExp_new val0 shape0 s0) i' broadcastIndex' s
   \<and> Shape B (TConstantExp_new val0 shape0 s0 :: ('f, 'v, 'ix) TExp) s = (Inr (arrays s0 shape0), s)
   \<and> Eval F (TConstantExp_dims val0 dims) i broadcastIndex s = (val0, s)
   \<and> Shape B (TConstantExp_dims val0 dims :: ('f, 'v, 'ix) TExp) s = (Inr dims, s)"
  by (simp add: Scalar_def TConstantExp_new_def TConstantExp_dims_def)

text \<open>
  Claim C4. A unary node has the shape of the expression it wraps, and evaluates to its
  functor applied to what that expression evaluates to at the same flat index and
  coordinate. The same holds for the node \<open>ElementWiseUnaryOpExpression\<close> builds.
\<close>

theorem TUnaryExp_Shape_Eval:
  "Shape B (TUnaryExp TOp param) s = Shape B param s
   \<and> fst (Eval F (TUnaryExp TOp param) i broadcastIndex s) =
       UnaryOp_Exec F TOp (fst (Eval F param i broadcastIndex s))
   \<and> Shape B (ElementWiseUnaryOpExpression TOp param) s = Shape B param s
   \<and> fst (Eval F (ElementWiseUnaryOpExpression TOp param) i broadcastIndex s) =
       UnaryOp_Exec F TOp (fst (Eval F param i broadcastIndex s))"
  unfolding ElementWiseUnaryOpExpression_def Self_def
  by (simp only: Eval_TUnaryExp Shape.simps simp_thms)

text \<open>
  Claim C5. \<open>ReluOp::Exec\<close> returns its argument when the argument is greater than
  \<open>0.0f\<close> and \<open>0.0f\<close> otherwise, for any float comparison. On the array \<open>[-2, 0, 3]\<close>,
  position by position, \<open>ReluActivateExp\<close> gives \<open>[0, 0, 3]\<close>, \<open>SquareExp\<close> gives
  \<open>[4, 0, 9]\<close> and \<open>AbsExp\<close> gives \<open>[2, 0, 3]\<close>, with \<open>Math::Square\<close> and \<open>Math::Abs\<close> read as
  in \<open>fval_ops\<close>.
\<close>

theorem ReluOp_Exec_examples:
  "ReluOp_Exec F x = (if fgt F x (fzero F) then x else fzero F)
   \<and> map (\<lambda>i. fst (Eval fval_ops (ReluActivateExp (ArrayLeaf [Fin (- 2), Fin 0, Fin 3])) i broadcastIndex s))
        [0, 1, 2] = [Fin 0, Fin 0, Fin 3]
   \<and> map (\<lambda>i. fst (Eval fval_ops (SquareExp (ArrayLeaf [Fin (- 2), Fin 0, Fin 3])) i broadcastIndex s))
        [0, 1, 2] = [Fin 4, Fin 0, Fin 9]
   \<and> map (\<lambda>i. fst (Eval fval_ops (AbsExp (ArrayLeaf [Fin (- 2), Fin 0, Fin 3])) i broadcastIndex s))
        [0, 1, 2] = [Fin 2, Fin 0, Fin 3]"
  by (simp add: ReluOp_Exec_def SquareOp_Exec_def AbsOp_Exec_def ReluActivateExp_def
      SquareExp_def AbsExp_def ElementWiseUnaryOpExpression_def Self_def ArrayLeaf_def
      fval_ops_def)

text \<open>
  Claim C6. Each of the operators \<open>+\<close>, \<open>-\<close>, \<open>*\<close>, \<open>/\<close> returns what the one generic
  function \<open>ElementWiseBinaryOpExpression\<close> returns for its functor (\<open>AddOp\<close>, \<open>MinusOp\<close>,
  \<open>MulOp\<close>, \<open>DivOp\<close>) and the same operands, and that function builds the binary node of
  the functor over the two operands.
\<close>

theorem operators_wrap_ElementWiseBinaryOpExpression:
  "operator_plus lhs rhs = ElementWiseBinaryOpExpression AddOp lhs rhs
   \<and> operator_minus lhs rhs = ElementWiseBinaryOpExpression MinusOp lhs rhs
   \<and> operator_times lhs rhs = ElementWiseBinaryOpExpression MulOp lhs rhs
   \<and> operator_divide lhs rhs = ElementWiseBinaryOpExpression DivOp lhs rhs
   \<and> ElementWiseBinaryOpExpression TOp lhs rhs = TBinaryExp TOp lhs rhs"
  by (simp add: operator_plus_def operator_minus_def operator_times_def operator_divide_def
      ElementWiseBinaryOpExpression_def Self_def)

text \<open>
  Claim C7. No functor has a failing branch: \<open>DivOp::Exec\<close>, \<open>SqrtOp::Exec\<close> and
  \<open>LogOp::Exec\<close> hand their arguments to the float division and to the Math library
  without a test, whatever the arguments. With IEEE values, a division by zero is
  NaN or an infinity, the root of a negative number is NaN, the logarithm of zero is
  the negative infinity and that of a negative number NaN, in exact and in single
  precision arithmetic alike; a quotient inside an expression is the float quotient of
  the operands' values, and NaN passes through \<open>+ - * /\<close>.
\<close>

theorem functors_total_on_edge_cases:
  "DivOp_Exec F a b = fdiv F a b
   \<and> SqrtOp_Exec F a = Math_Sqrt F a
   \<and> LogOp_Exec F a = Math_Log F a
   \<and> DivOp_Exec fval_ops (Fin x) (Fin 0) = (if x = 0 then NaN else if x > 0 then PInf else NInf)
   \<and> SqrtOp_Exec fval_ops (Fin x) = (if x < 0 then NaN else Fin (sqrt x))
   \<and> LogOp_Exec fval_ops (Fin x) = (if x < 0 then NaN else if x = 0 then NInf else Fin (ln x))
   \<and> DivOp_Exec binary32_ops (Fin x) (Fin 0) = (if x = 0 then NaN else if x > 0 then PInf else NInf)
   \<and> SqrtOp_Exec binary32_ops (Fin x) = (if x < 0 then NaN else to_binary32 (Fin (sqrt x)))
   \<and> LogOp_Exec binary32_ops (Fin x) =
       (if x < 0 then NaN else if x = 0 then NInf else to_binary32 (Fin (ln x)))
   \<and> fst (Eval fval_ops (operator_divide lhs rhs) i broadcastIndex s) =
       fval_div (fst (Eval fval_ops lhs i broadcastIndex s)) (fst (Eval fval_ops rhs i broadcastIndex s))
   \<and> fval_add NaN y = NaN \<and> fval_add y NaN = NaN
   \<and> fval_mul NaN y = NaN \<and> fval_mul y NaN = NaN
   \<and> fval_div NaN y = NaN \<and> fval_div y NaN = NaN
   \<and> fval_sub NaN y = NaN \<and> fval_sub y NaN = NaN"
proof -
  have nan: "fval_add y NaN = NaN" "fval_mul y NaN = NaN" "fval_div y NaN = NaN"
    "fval_sub y NaN = NaN"
    by (cases y; simp add: fval_sub_def)+
  have ev: "fst (Eval fval_ops (operator_divide lhs rhs) i broadcastIndex s) =
       fval_div (fst (Eval fval_ops lhs i broadcastIndex s)) (fst (Eval fval_ops rhs i broadcastIndex s))"
    unfolding operator_divide_def ElementWiseBinaryOpExpression_def Self_def
    by (simp only: Eval_TBinaryExp BinaryOp_Exec.simps DivOp_Exec_def)
       (simp add: fval_ops_def)
  show ?thesis
    using nan ev
    by (simp add: DivOp_Exec_def SqrtOp_Exec_def LogOp_Exec_def fval_ops_def binary32_ops_def
        fval_sub_def)
qed

text \<open>
  At concrete inputs: 1 / 0, -1 / 0, 0 / 0, the root of -4, the logarithms of 0 and -1,
  and the expression \<open>A / B + C\<close> on \<open>A = [1, 0, 6]\<close>, \<open>B = [0, 0, 3]\<close> and a scalar cell
  holding 2, which is infinite at index 0, NaN at index 1 and 4 at index 2.
\<close>

theorem functors_total_on_edge_cases_witness:
  "DivOp_Exec fval_ops (Fin 1) (Fin 0) = PInf
   \<and> DivOp_Exec fval_ops (Fin (- 1)) (Fin 0) = NInf
   \<and> DivOp_Exec fval_ops (Fin 0) (Fin 0) = NaN
   \<and> SqrtOp_Exec fval_ops (Fin (- 4)) = NaN
   \<and> LogOp_Exec fval_ops (Fin 0) = NInf
   \<and> LogOp_Exec fval_ops (Fin (- 1)) = NaN
   \<and> fst (Eval fval_ops
        (operator_plus
           (operator_divide (ArrayLeaf [Fin 1, Fin 0, Fin 6]) (ArrayLeaf [Fin 0, Fin 0, Fin 3]))
           (Scalar int_to_float 1) :: (fval, int, unit) TExp) 0 () store0) = PInf
   \<and> fst (Eval fval_ops
        (operator_plus
           (operator_divide (ArrayLeaf [Fin 1, Fin 0, Fin 6]) (ArrayLeaf [Fin 0, Fin 0, Fin 3]))
           (Scalar int_to_float 1) :: (fval, int, unit) TExp) 1 () store0) = NaN
   \<and> fst (Eval fval_ops
        (operator_plus
           (operator_divide (ArrayLeaf [Fin 1, Fin 0, Fin 6]) (ArrayLeaf [Fin 0, Fin 0, Fin 3]))
           (Scalar int_to_float 1) :: (fval, int, unit) TExp) 2 () store0) = Fin 4"
  using functors_total_on_edge_cases [where F = fval_ops and a = "Fin 1" and b = "Fin 0"
      and x = 1 and y = NaN and lhs = "TConstantExp (Fin 1) []" and rhs = "TConstantExp (Fin 0) []"
      and i = 0 and broadcastIndex = "()" and s = store0]
    functors_total_on_edge_cases [where F = fval_ops and a = "Fin 1" and b = "Fin 0"
      and x = "- 1" and y = NaN and lhs = "TConstantExp (Fin 1) []" and rhs = "TConstantExp (Fin 0) []"
      and i = 0 and broadcastIndex = "()" and s = store0]
    functors_total_on_edge_cases [where F = fval_ops and a = "Fin 1" and b = "Fin 0"
      and x = 0 and y = NaN and lhs = "TConstantExp (Fin 1) []" and rhs = "TConstantExp (Fin 0) []"
      and i = 0 and broadcastIndex = "()" and s = store0]
    functors_total_on_edge_cases [where F = fval_ops and a = "Fin 1" and b = "Fin 0"
      and x = "- 4" and y = NaN and lhs = "TConstantExp (Fin 1) []" and rhs = "TConstantExp (Fin 0) []"
      and i = 0 and broadcastIndex = "()" and s = store0]
  by (simp add: operator_plus_def operator_divide_def ElementWiseBinaryOpExpression_def Self_def
      ArrayLeaf_def Scalar_def AddOp_Exec_def DivOp_Exec_def fval_ops_def int_to_float_small
      store0_def)

text \<open>
  Claim C8. For every expression tree, \<open>Eval\<close> and \<open>Shape\<close> return the store they were
  given. Hence evaluating a tree again at the same flat index and coordinate gives the
  same result, and so does evaluating it after any other evaluation or shape query, of
  this tree or another: order and repetition cannot be observed. A node is a value
  made of its members; \<open>Eval\<close> and \<open>Shape\<close> return no node, as the const methods of the
  header assign to no member.
\<close>

theorem Eval_Shape_pure:
  "snd (Eval F e i broadcastIndex s) = s
   \<and> snd (Shape B e s) = s
   \<and> Eval F e i broadcastIndex (snd (Eval F e i broadcastIndex s)) = Eval F e i broadcastIndex s
   \<and> Eval F e i broadcastIndex (snd (Eval F e' i' broadcastIndex' s)) = Eval F e i broadcastIndex s
   \<and> Eval F e i broadcastIndex (snd (Shape B e' s)) = Eval F e i broadcastIndex s
   \<and> Shape B e (snd (Eval F e' i' broadcastIndex' s)) = Shape B e s
   \<and> Shape B e (snd (Shape B e' s)) = Shape B e s"
  by (simp only: Eval_store Shape_store simp_thms)

text \<open>
  Claim C9. A constant node built in store \<open>s0\<close> from the caller's scalar at address
  \<open>a\<close> and the caller's array at address \<open>shape0\<close> answers, in every later store \<open>s\<close>, with
  the value and the shape those addresses held in \<open>s0\<close>: what the caller writes to
  either address afterwards does not reach the node. A scalar node answers with what its
  address holds in the store of the call.
\<close>

theorem TConstantExp_holds_copies:
  "Eval F (TConstantExp_new (conv (scalars s0 a)) shape0 s0) i broadcastIndex s =
       (conv (scalars s0 a), s)
   \<and> Shape B (TConstantExp_new (conv (scalars s0 a)) shape0 s0 :: ('f, 'v, 'ix) TExp) s =
       (Inr (arrays s0 shape0), s)
   \<and> Eval F (Scalar conv a) i broadcastIndex s = (conv (scalars s a), s)"
  by (simp add: Scalar_def TConstantExp_new_def)

text \<open>
  At a concrete input: the constant node is built while address 0 holds the scalar 7 and
  the array \<open>[2, 3]\<close>; the caller then stores 9 and \<open>[5]\<close> there. The constant node
  still answers 7 and \<open>[2, 3]\<close>; a scalar node on address 0 answers 9.
\<close>

theorem TConstantExp_holds_copies_witness:
  "Eval fval_ops
      (TConstantExp_new (int_to_float (scalars store0 0)) 0 store0 :: (fval, int, unit) TExp) 0 ()
      (store0\<lparr>scalars := (scalars store0)(0 := 9), arrays := (arrays store0)(0 := [5])\<rparr>)
     = (Fin 7, store0\<lparr>scalars := (scalars store0)(0 := 9), arrays := (arrays store0)(0 := [5])\<rparr>)
   \<and> fst (Shape BroadcastShape
      (TConstantExp_new (int_to_float (scalars store0 0)) 0 store0 :: (fval, int, unit) TExp)
      (store0\<lparr>scalars := (scalars store0)(0 := 9), arrays := (arrays store0)(0 := [5])\<rparr>))
     = Inr [2, 3]
   \<and> fst (Eval fval_ops (Scalar int_to_float 0 :: (fval, int, unit) TExp) 0 ()
      (store0\<lparr>scalars := (scalars store0)(0 := 9), arrays := (arrays store0)(0 := [5])\<rparr>))
     = Fin 9"
  using TConstantExp_holds_copies [of fval_ops int_to_float store0 0 0 0 "()"
      "store0\<lparr>scalars := (scalars store0)(0 := 9), arrays := (arrays store0)(0 := [5])\<rparr>"
      BroadcastShape]
  by (simp add: TConstantExp_new_def Scalar_def int_to_float_small store0_def)

text \<open>
  Claim C10. Evaluation stays in single precision, whatever type a scalar is declared
  with. When the float primitives take single precision values to single precision
  values and every leaf delivers one (a scalar node through its conversion to float,
  a constant node by its member, an outside node by its \<open>Eval\<close>), every expression tree
  evaluates to a single precision value. A scalar node evaluates to the conversion of
  the value it refers to, and for a cell declared \<open>int\<close> that is a single precision
  value in every store.
\<close>

theorem Eval_single_precision:
  assumes "returns_binary32 F" and "leaves_binary32 e i broadcastIndex s"
  shows "is_binary32 (fst (Eval F e i broadcastIndex s))
    \<and> fst (Eval F (Scalar conv val) i broadcastIndex s) = conv (scalars s val)
    \<and> is_binary32 (fst (Eval F (Scalar int_to_float val) i broadcastIndex s'))"
  using Eval_binary32 [OF assms] by (simp add: Scalar_def is_binary32_int_to_float)

text \<open>
  At a concrete input, with the primitives of \<open>binary32_ops\<close>: two cells declared \<open>int\<close>
  hold 16777217 and 16777216. The scalar node on the first evaluates to 16777216, so
  the difference of the two as an expression is 0, not the integer difference 1
  converted; and the second plus the constant 1 is 16777216 again.
\<close>

theorem Eval_single_precision_witness:
  "returns_binary32 binary32_ops
   \<and> leaves_binary32
        (operator_minus (Scalar int_to_float 0) (Scalar int_to_float 1) :: (fval, int, unit) TExp)
        0 () store1
   \<and> is_binary32 (fst (Eval binary32_ops
        (operator_minus (Scalar int_to_float 0) (Scalar int_to_float 1) :: (fval, int, unit) TExp)
        0 () store1))
   \<and> fst (Eval binary32_ops (Scalar int_to_float 0 :: (fval, int, unit) TExp) 0 () store1)
       = Fin 16777216
   \<and> fst (Eval binary32_ops
        (operator_minus (Scalar int_to_float 0) (Scalar int_to_float 1) :: (fval, int, unit) TExp)
        0 () store1) = Fin 0
   \<and> int_to_float (scalars store1 0 - scalars store1 1) = Fin 1
   \<and> fst (Eval binary32_ops
        (operator_plus (Scalar int_to_float 1) (TConstantExp_dims (Fin 1) [1]) :: (fval, int, unit) TExp)
        0 () store1) = Fin 16777216"
proof -
  let ?e = "operator_minus (Scalar int_to_float 0) (Scalar int_to_float 1) :: (fval, int, unit) TExp"
  have conv0: "int_to_float (scalars store1 0) = Fin 16777216"
    by (simp add: store1_def int_to_float_16777217)
  have leaves: "leaves_binary32 ?e 0 () store1"
    by (simp add: operator_minus_def ElementWiseBinaryOpExpression_def Self_def Scalar_def
        is_binary32_int_to_float)
  have diff: "fst (Eval binary32_ops ?e 0 () store1) = Fin 0"
    by (simp add: operator_minus_def ElementWiseBinaryOpExpression_def Self_def Scalar_def
        MinusOp_Exec_def binary32_ops_def fval_sub_def store1_def int_to_float_16777217
        int_to_float_small)
  have sum: "fst (Eval binary32_ops
        (operator_plus (Scalar int_to_float 1) (TConstantExp_dims (Fin 1) [1]) :: (fval, int, unit) TExp)
        0 () store1) = Fin 16777216"
    by (simp add: operator_plus_def ElementWiseBinaryOpExpression_def Self_def Scalar_def
        TConstantExp_dims_def AddOp_Exec_def binary32_ops_def store1_def int_to_float_small
        to_binary32_16777217 del: to_binary32.simps)
  have one: "int_to_float (scalars store1 0 - scalars store1 1) = Fin 1"
    by (simp add: store1_def int_to_float_small)
  show ?thesis
    using Eval_single_precision [OF returns_binary32_binary32_ops leaves,
        where conv = int_to_float and val = 0 and s' = store1]
      returns_binary32_binary32_ops leaves diff sum one conv0
    by (simp add: Scalar_def)
qed

end
